theory Spec2Isabelle
  imports Complex_Main "HOL-Library.AList"
begin

section \<open>Typed arrays of the host language\<close>

text \<open>
  The buffers of the emitter are \<^verbatim>\<open>Float32Array\<close>s. A buffer is modelled as the list of
  its elements (the stored numbers are taken as reals that are already representable).
  Sizes, offsets and particle amounts are JavaScript numbers; the model takes them as
  integers, so that negative values and the clamping the code and the typed-array
  methods do stay visible. The exceptions the operations modelled here can raise are
  the \<^verbatim>\<open>RangeError\<close> of \<^verbatim>\<open>TypedArray.prototype.set\<close> and the \<^verbatim>\<open>TypeError\<close> of a
  member access on \<^verbatim>\<open>undefined\<close> or of a call of something that is not a function.
\<close>

datatype error = RangeError | TypeError

text \<open>
  A call either returns with the state it leaves, or throws, leaving the state as it was
  mutated up to the throw.
\<close>

datatype 'a outcome = Returned 'a | Threw error 'a

text \<open>
  Relative indices of \<^verbatim>\<open>subarray\<close> and \<^verbatim>\<open>fill\<close>: a negative index counts from
  the end, and the result is clamped into \<open>[0, len]\<close>.
\<close>

definition rel_index :: "int \<Rightarrow> nat \<Rightarrow> nat" where
  "rel_index k len = (if k < 0 then nat (max (int len + k) 0) else min (nat k) len)"

text \<open>\<^verbatim>\<open>subarray(begin, end)\<close>: the offset and the length of the new view.\<close>

definition subarray :: "nat \<Rightarrow> int \<Rightarrow> int \<Rightarrow> nat \<times> nat" where
  "subarray len b e =
     (let first = rel_index b len; final = rel_index e len
      in (first, final - first))"

text \<open>
  \<^verbatim>\<open>target.set(source, offset)\<close>: throws when the offset is negative or the source does
  not fit, before anything is written; otherwise copies the source over
  \<open>[offset, offset + length source)\<close>.
\<close>

definition typed_set :: "real list \<Rightarrow> real list \<Rightarrow> int \<Rightarrow> error + real list" where
  "typed_set target source offset =
     (if offset < 0 \<or> int (length target) < int (length source) + offset then Inl RangeError
      else Inr (take (nat offset) target @ source @ drop (nat offset + length source) target))"

text \<open>\<^verbatim>\<open>target.fill(v, start)\<close>: writes \<open>v\<close> from the relative index \<open>start\<close> to the end.\<close>

definition typed_fill :: "real list \<Rightarrow> real \<Rightarrow> int \<Rightarrow> real list" where
  "typed_fill target v start =
     (let k = rel_index start (length target)
      in take k target @ replicate (length target - k) v)"

section \<open>Plain objects used as dictionaries\<close>

text \<open>
  \<^verbatim>\<open>geometry.attributes\<close>, \<^verbatim>\<open>instance.attributes\<close> and \<^verbatim>\<open>instance.attributeIndices\<close>
  are plain objects (\<^verbatim>\<open>{}\<close>) indexed by attribute names. Such an object is the list of
  its own properties in insertion order, which is what \<^verbatim>\<open>Object.entries\<close> yields; its
  prototype is \<^verbatim>\<open>Object.prototype\<close>, so a lookup of a name it does not own finds the
  member of \<^verbatim>\<open>Object.prototype\<close> of that name, if there is one. These members are
  functions, except \<^verbatim>\<open>__proto__\<close>, which reads as \<^verbatim>\<open>Object.prototype\<close> itself: all of
  them are objects (neither nullish nor falsy) that convert to the number \<^verbatim>\<open>NaN\<close>.
  The table gives their names in ECMAScript (with its Annex B) and the \<^verbatim>\<open>length\<close> each
  has (the number of parameters of the function; \<^verbatim>\<open>Object.prototype\<close> has none).
  \<^verbatim>\<open>Object.entries\<close> enumerates names that are array indices before the others; an
  attribute name is taken not to be one, as a name of a shader attribute cannot be.
\<close>

definition Object_prototype :: "(string \<times> nat option) list" where
  "Object_prototype =
     [(''constructor'', Some 1), (''hasOwnProperty'', Some 1), (''isPrototypeOf'', Some 1),
      (''propertyIsEnumerable'', Some 1), (''toLocaleString'', Some 0), (''toString'', Some 0),
      (''valueOf'', Some 0), (''__defineGetter__'', Some 2), (''__defineSetter__'', Some 2),
      (''__lookupGetter__'', Some 1), (''__lookupSetter__'', Some 1), (''__proto__'', None)]"

definition inherited_name :: "string \<Rightarrow> bool" where
  "inherited_name name \<longleftrightarrow> map_of Object_prototype name \<noteq> None"

text \<open>
  \<^verbatim>\<open>obj[name]\<close>: the own property, or the inherited member (with its \<^verbatim>\<open>length\<close>), or
  \<^verbatim>\<open>undefined\<close>. \<^verbatim>\<open>name in obj\<close> holds in the first two cases.
\<close>

datatype 'a property = Own 'a | Inherited "nat option" | Absent

definition get_property :: "(string \<times> 'a) list \<Rightarrow> string \<Rightarrow> 'a property" where
  "get_property obj name =
     (case map_of obj name of
        Some v \<Rightarrow> Own v
      | None \<Rightarrow>
          (case map_of Object_prototype name of
             Some len \<Rightarrow> Inherited len
           | None \<Rightarrow> Absent))"

text \<open>
  \<^verbatim>\<open>obj[name] = v\<close> stores an own property, replacing the value of one that exists and
  appending a new one. The name \<^verbatim>\<open>__proto__\<close> is the exception: the assignment of an
  object to it replaces the prototype and stores no property. The model keeps
  \<^verbatim>\<open>Object.prototype\<close> as the prototype of every object, so what a replaced prototype
  would add to later lookups is outside it; \<^verbatim>\<open>geometry.setAttribute\<close> is such an
  assignment, so it cannot give the geometry an attribute of that name.
\<close>

definition set_property :: "string \<Rightarrow> 'a \<Rightarrow> (string \<times> 'a) list \<Rightarrow> (string \<times> 'a) list" where
  "set_property name v obj = (if name = ''__proto__'' then obj else AList.update name v obj)"

section \<open>The data of Emitter and EmitterInstance\<close>

text \<open>
  A \<^verbatim>\<open>THREE.BufferAttribute\<close> as the code reads it: its array, \<^verbatim>\<open>itemSize\<close>,
  \<^verbatim>\<open>count\<close> and \<^verbatim>\<open>needsUpdate\<close>. \<open>isInstanced\<close> records the declared type
  (\<^verbatim>\<open>InstancedBufferAttribute\<close> or plain \<^verbatim>\<open>BufferAttribute\<close>); no operation reads it.
\<close>

record attribute =
  array :: "real list"
  itemSize :: int
  count :: int
  isInstanced :: bool
  needsUpdate :: bool

text \<open>
  An instance's entry in \<^verbatim>\<open>attributes\<close> aliases the emitter's buffer of the same name:
  either the array itself, or a \<^verbatim>\<open>Proxy\<close> around \<^verbatim>\<open>subarray(start, end)\<close>, kept as
  the offset and the length of that window.
\<close>

datatype view = WholeArray | ProxySubarray nat nat

text \<open>
  What \<^verbatim>\<open>attributeIndices\<close> holds or yields for a name: a number, or a member inherited
  from \<^verbatim>\<open>Object.prototype\<close>. Where an integer is expected (the arguments of
  \<^verbatim>\<open>subarray\<close>, \<^verbatim>\<open>set\<close> and \<^verbatim>\<open>fill\<close>), such a member converts to \<^verbatim>\<open>NaN\<close> and then
  to \<open>0\<close>.
\<close>

datatype index_value = Index int | Member

record emitter =
  maxParticles :: int
  instanceCount :: int
  geometry_attributes :: "(string \<times> attribute) list"
  knownInstances :: "nat list"
  timestamp :: int
  time_uniform :: real
  autoUpdate :: bool
  scheduledFrames :: nat

record emitter_instance =
  particleAmount :: int
  attributes :: "(string \<times> view) list"
  attributeIndices :: "string \<rightharpoonup> index_value"

text \<open>
  \<^verbatim>\<open>this.attributeIndices[name]\<close>, read (\<open>None\<close> is \<^verbatim>\<open>undefined\<close>) and assigned.
\<close>

definition recorded_index :: "emitter_instance \<Rightarrow> string \<Rightarrow> index_value option" where
  "recorded_index inst name =
     (case attributeIndices inst name of
        Some v \<Rightarrow> Some v
      | None \<Rightarrow> if inherited_name name then Some Member else None)"

definition record_index ::
  "string \<Rightarrow> index_value \<Rightarrow> (string \<rightharpoonup> index_value) \<Rightarrow> (string \<rightharpoonup> index_value)" where
  "record_index name v indices = (if name = ''__proto__'' then indices else indices(name \<mapsto> v))"

text \<open>
  The emitter together with the instance objects created so far. An instance handle is
  the index of the object in \<open>instances\<close>; \<open>knownInstances\<close> holds handles, in insertion
  order and without duplicates, as the \<^verbatim>\<open>Set\<close> of the code does.
\<close>

record world =
  the_emitter :: emitter
  instances :: "emitter_instance list"

section \<open>EmitterInstance: computing the views\<close>

text \<open>
  One iteration of the loop of \<^verbatim>\<open>calculateAttributeSubarrays\<close> over the entries of
  \<^verbatim>\<open>emitter.geometry.attributes\<close>. An attribute whose \<^verbatim>\<open>count\<close> reaches
  \<^verbatim>\<open>maxParticles\<close> gets a proxied subarray, starting at what
  \<^verbatim>\<open>this.attributeIndices[name]\<close> yields or, when that is \<^verbatim>\<open>undefined\<close>, at
  \<^verbatim>\<open>Math.max(0, instanceCount * itemSize)\<close>. When the start is a number \<open>s\<close>, the end is
  \<^verbatim>\<open>Math.min(array.length, s + particleAmount * itemSize)\<close>. When it is a member of
  \<^verbatim>\<open>Object.prototype\<close>, \<^verbatim>\<open>start + particleAmount * itemSize\<close> is a string and the end
  is \<^verbatim>\<open>NaN\<close>, so the view is \<^verbatim>\<open>subarray(0, 0)\<close>. Any other attribute gets the whole
  array, unless \<^verbatim>\<open>this.attributes[name]\<close> yields something already (a view, or a member
  of \<^verbatim>\<open>Object.prototype\<close>).
\<close>

definition subarray_step :: "emitter \<Rightarrow> string \<times> attribute \<Rightarrow> emitter_instance \<Rightarrow> emitter_instance" where
  "subarray_step e entry inst =
     (case entry of (name, attr) \<Rightarrow>
        if maxParticles e \<le> count attr then
          let start = (case recorded_index inst name of
                         Some v \<Rightarrow> v
                       | None \<Rightarrow> Index (max 0 (instanceCount e * itemSize attr)));
              window = (case start of
                          Index s \<Rightarrow>
                            subarray (length (array attr)) s
                              (min (int (length (array attr))) (s + particleAmount inst * itemSize attr))
                        | Member \<Rightarrow> subarray (length (array attr)) 0 0)
          in inst\<lparr>attributeIndices := record_index name start (attributeIndices inst),
                   attributes := set_property name (ProxySubarray (fst window) (snd window)) (attributes inst)\<rparr>
        else (case get_property (attributes inst) name of
                Absent \<Rightarrow> inst\<lparr>attributes := set_property name WholeArray (attributes inst)\<rparr>
              | Own v \<Rightarrow> inst
              | Inherited len \<Rightarrow> inst))"

definition calculateAttributeSubarrays :: "emitter \<Rightarrow> emitter_instance \<Rightarrow> emitter_instance" where
  "calculateAttributeSubarrays e inst = fold (subarray_step e) (geometry_attributes e) inst"

section \<open>Emitter: registering and unregistering instances\<close>

definition instanceAdded :: "world \<Rightarrow> nat \<Rightarrow> world" where
  "instanceAdded w i =
     (let e = the_emitter w in
      if i \<notin> set (knownInstances e) then
        w\<lparr>the_emitter := e\<lparr>knownInstances := knownInstances e @ [i],
                             instanceCount := min (maxParticles e)
                               (instanceCount e + particleAmount (instances w ! i))\<rparr>\<rparr>
      else w)"

text \<open>
  The constructor of \<^verbatim>\<open>EmitterInstance\<close>: a new object with empty \<^verbatim>\<open>attributes\<close> and
  \<^verbatim>\<open>attributeIndices\<close> computes its views and registers itself. The new handle is
  the second component.
\<close>

definition blank_instance :: "int \<Rightarrow> emitter_instance" where
  "blank_instance amount =
     \<lparr>particleAmount = amount, attributes = [], attributeIndices = Map.empty\<rparr>"

definition new_EmitterInstance :: "world \<Rightarrow> int \<Rightarrow> world \<times> nat" where
  "new_EmitterInstance w amount =
     (let inst = calculateAttributeSubarrays (the_emitter w) (blank_instance amount);
          i = length (instances w)
      in (instanceAdded (w\<lparr>instances := instances w @ [inst]\<rparr>) i, i))"

text \<open>The length of a view: of the window, or of the whole array it is.\<close>

definition view_length :: "real list \<Rightarrow> view \<Rightarrow> nat" where
  "view_length arr v = (case v of WholeArray \<Rightarrow> length arr | ProxySubarray off n \<Rightarrow> n)"

text \<open>
  One iteration of the loop of \<^verbatim>\<open>removeAndShiftAttributes\<close> over the entries of
  \<^verbatim>\<open>instance.attributes\<close>: the data behind the removed range is copied to its start
  (\<^verbatim>\<open>set\<close> copies from a snapshot when source and target share the buffer), the tail
  is filled with zeros from the relative index \<open>start - end\<close>, and the attribute is
  marked for upload. With a start that is a member of \<^verbatim>\<open>Object.prototype\<close>,
  \<^verbatim>\<open>end\<close> is a string and \<^verbatim>\<open>start - end\<close> is \<^verbatim>\<open>NaN\<close>: the three arguments convert
  to \<open>0\<close>. A name for which \<^verbatim>\<open>name in this.geometry.attributes\<close> is false is skipped;
  a name that the geometry only inherits yields a function, whose \<^verbatim>\<open>array\<close> is
  \<^verbatim>\<open>undefined\<close>, and the access of \<^verbatim>\<open>set\<close> on it throws.
\<close>

definition shift_attribute :: "attribute \<Rightarrow> index_value \<Rightarrow> nat \<Rightarrow> error + attribute" where
  "shift_attribute attr start vlen =
     (let arr = array attr;
          end = (case start of Index s \<Rightarrow> s + int vlen | Member \<Rightarrow> 0);
          offset = (case start of Index s \<Rightarrow> s | Member \<Rightarrow> 0);
          from = (case start of Index s \<Rightarrow> s - (s + int vlen) | Member \<Rightarrow> 0);
          src = drop (rel_index end (length arr)) arr
      in case typed_set arr src offset of
           Inl err \<Rightarrow> Inl err
         | Inr shifted \<Rightarrow>
             Inr (attr\<lparr>array := typed_fill shifted 0 from, needsUpdate := True\<rparr>))"

fun removeAndShiftLoop :: "emitter_instance \<Rightarrow> (string \<times> view) list \<Rightarrow> emitter \<Rightarrow> emitter outcome" where
  "removeAndShiftLoop inst [] e = Returned e"
| "removeAndShiftLoop inst ((name, v) # rest) e =
     (case get_property (geometry_attributes e) name of
        Absent \<Rightarrow> removeAndShiftLoop inst rest e
      | Inherited len \<Rightarrow> Threw TypeError e
      | Own attr \<Rightarrow>
          (let start = (case recorded_index inst name of Some s \<Rightarrow> s | None \<Rightarrow> Index 0)
           in case shift_attribute attr start (view_length (array attr) v) of
                Inl err \<Rightarrow> Threw err e
              | Inr attr' \<Rightarrow>
                  removeAndShiftLoop inst rest
                    (e\<lparr>geometry_attributes := AList.update name attr' (geometry_attributes e)\<rparr>)))"

definition removeAndShiftAttributes :: "emitter \<Rightarrow> emitter_instance \<Rightarrow> emitter outcome" where
  "removeAndShiftAttributes e inst = removeAndShiftLoop inst (attributes inst) e"

definition instanceRemoved :: "world \<Rightarrow> nat \<Rightarrow> world outcome" where
  "instanceRemoved w i =
     (let e = the_emitter w in
      if i \<in> set (knownInstances e) then
        (let inst = instances w ! i;
             e1 = e\<lparr>instanceCount := max 0 (instanceCount e - particleAmount inst)\<rparr>
         in case removeAndShiftAttributes e1 inst of
              Threw err e2 \<Rightarrow> Threw err (w\<lparr>the_emitter := e2\<rparr>)
            | Returned e2 \<Rightarrow>
                Returned (w\<lparr>the_emitter := e2\<lparr>knownInstances := removeAll i (knownInstances e2)\<rparr>\<rparr>))
      else Returned w)"

section \<open>Emitter: the particle amount and the time uniform\<close>

definition get_particleAmount :: "emitter \<Rightarrow> int" where
  "get_particleAmount e = instanceCount e"

definition set_particleAmount :: "emitter \<Rightarrow> int \<Rightarrow> emitter" where
  "set_particleAmount e amount = e\<lparr>instanceCount := amount\<rparr>"

text \<open>
  \<^verbatim>\<open>update()\<close>, with the reading of \<^verbatim>\<open>Date.now()\<close> (milliseconds, an integer) as an
  argument. The expression \<^verbatim>\<open>timestamp && (now - timestamp) / 1000 || 0\<close> is \<open>0\<close> when
  the timestamp is \<open>0\<close> and the quotient otherwise (a quotient of \<open>0\<close> is replaced by
  \<open>0\<close>). The frame requested when \<^verbatim>\<open>autoUpdate\<close> is set is counted.
\<close>

definition time_delta :: "int \<Rightarrow> int \<Rightarrow> real" where
  "time_delta ts now =
     (if ts \<noteq> 0 then
        (let d = real_of_int (now - ts) / 1000 in if d \<noteq> 0 then d else 0)
      else 0)"

definition update :: "int \<Rightarrow> emitter \<Rightarrow> emitter" where
  "update now e =
     (let e1 = e\<lparr>time_uniform := time_uniform e + time_delta (timestamp e) now\<rparr>;
          e2 = e1\<lparr>timestamp := now\<rparr>
      in if autoUpdate e2 then e2\<lparr>scheduledFrames := scheduledFrames e2 + 1\<rparr> else e2)"

fun updates :: "int list \<Rightarrow> emitter \<Rightarrow> emitter" where
  "updates [] e = e"
| "updates (now # rest) e = updates rest (update now e)"

section \<open>Filling attributes\<close>

text \<open>
  The value of a fill: a number, an array of numbers, or a function of the index. The
  function given to \<^verbatim>\<open>Emitter.fillAttribute\<close> may return a number or an array; the
  one given to \<^verbatim>\<open>EmitterInstance.fillAttribute\<close> returns a number.
\<close>

datatype generated = Num real | Arr "real list"

datatype fill_value = Scalar real | Vector "real list" | Generator "nat \<Rightarrow> generated"

datatype instance_fill_value = IScalar real | IVector "real list" | IGenerator "nat \<Rightarrow> real"

text \<open>
  \<^verbatim>\<open>for (let i = 0; i < data.length; i += value.length) data.set(value, i)\<close>, the loop
  of both classes for an array value. With an empty array the index never advances, so
  the loop may not return: the result \<open>None\<close> stands for that.
\<close>

partial_function (option) tile_loop :: "real list \<Rightarrow> real list \<Rightarrow> nat \<Rightarrow> real list outcome option" where
  "tile_loop val data i =
     (if i < length data then
        (case typed_set data val (int i) of
           Inl err \<Rightarrow> Some (Threw err data)
         | Inr data' \<Rightarrow> tile_loop val data' (i + length val))
      else Some (Returned data))"

text \<open>The \<^verbatim>\<open>while\<close> loop of \<^verbatim>\<open>Emitter.fillAttribute\<close> for a function value.\<close>

definition as_array :: "generated \<Rightarrow> real list" where
  "as_array val = (case val of Num v \<Rightarrow> [v] | Arr vs \<Rightarrow> vs)"

partial_function (option) generator_loop ::
  "(nat \<Rightarrow> generated) \<Rightarrow> real list \<Rightarrow> nat \<Rightarrow> nat \<Rightarrow> real list outcome option" where
  "generator_loop val data sourceIndex destIndex =
     (if destIndex < length data then
        (case typed_set data (as_array (val sourceIndex)) (int destIndex) of
           Inl err \<Rightarrow> Some (Threw err data)
         | Inr data' \<Rightarrow>
             generator_loop val data' (sourceIndex + 1) (destIndex + length (as_array (val sourceIndex))))
      else Some (Returned data))"

text \<open>
  \<^verbatim>\<open>for (let i = 0; i < data.length; i += 1) data.set([value(i)], i)\<close>, the loop of
  \<^verbatim>\<open>EmitterInstance.fillAttribute\<close> for a function value.
\<close>

function index_loop :: "(nat \<Rightarrow> real) \<Rightarrow> real list \<Rightarrow> nat \<Rightarrow> real list outcome" where
  "index_loop val data i =
     (if i < length data then
        (case typed_set data [val i] (int i) of
           Inl err \<Rightarrow> Threw err data
         | Inr data' \<Rightarrow> index_loop val data' (i + 1))
      else Returned data)"
  by pat_completeness auto
termination
  by (relation "measure (\<lambda>(val, data, i). length data - i)")
     (auto simp: typed_set_def split: if_splits)

text \<open>\<open>m\<close> copies of a vector, one after the other.\<close>

definition tiles :: "nat \<Rightarrow> real list \<Rightarrow> real list" where
  "tiles m val = concat (replicate m val)"

text \<open>
  \<^verbatim>\<open>Emitter.fillAttribute\<close>: a name for which \<^verbatim>\<open>attribute in this.geometry.attributes\<close>
  is false is ignored; \<^verbatim>\<open>needsUpdate\<close> is set by the last statement, which a throw
  does not reach. For a name the geometry only inherits, \<^verbatim>\<open>data\<close> is the \<^verbatim>\<open>array\<close> of
  a function, that is \<^verbatim>\<open>undefined\<close>, and every branch starts with a member access
  on it, which throws.
\<close>

definition fill_array :: "fill_value \<Rightarrow> real list \<Rightarrow> real list outcome option" where
  "fill_array val data =
     (case val of
        Generator g \<Rightarrow> generator_loop g data 0 0
      | Vector vs \<Rightarrow> tile_loop vs data 0
      | Scalar v \<Rightarrow> Some (Returned (typed_fill data v 0)))"

definition Emitter_fillAttribute :: "emitter \<Rightarrow> string \<Rightarrow> fill_value \<Rightarrow> emitter outcome option" where
  "Emitter_fillAttribute e name val =
     (case get_property (geometry_attributes e) name of
        Absent \<Rightarrow> Some (Returned e)
      | Inherited len \<Rightarrow> Some (Threw TypeError e)
      | Own attr \<Rightarrow>
          (case fill_array val (array attr) of
             None \<Rightarrow> None
           | Some (Threw err data) \<Rightarrow>
               Some (Threw err (e\<lparr>geometry_attributes :=
                  AList.update name (attr\<lparr>array := data\<rparr>) (geometry_attributes e)\<rparr>))
           | Some (Returned data) \<Rightarrow>
               Some (Returned (e\<lparr>geometry_attributes :=
                  AList.update name (attr\<lparr>array := data, needsUpdate := True\<rparr>) (geometry_attributes e)\<rparr>))))"

text \<open>
  What a view shows of the buffer, and the buffer after the view's contents were
  replaced.
\<close>

definition view_offset :: "view \<Rightarrow> nat" where
  "view_offset v = (case v of WholeArray \<Rightarrow> 0 | ProxySubarray off n \<Rightarrow> off)"

definition read_view :: "real list \<Rightarrow> view \<Rightarrow> real list" where
  "read_view arr v = take (view_length arr v) (drop (view_offset v) arr)"

definition write_view :: "real list \<Rightarrow> view \<Rightarrow> real list \<Rightarrow> real list" where
  "write_view arr v data =
     take (view_offset v) arr @ data @ drop (view_offset v + view_length arr v) arr"

text \<open>
  The \<^verbatim>\<open>get\<close> trap of the proxy sets \<^verbatim>\<open>needsUpdate\<close> when \<^verbatim>\<open>set\<close> or \<^verbatim>\<open>fill\<close> is
  looked up on the view; the whole array of an attribute below \<^verbatim>\<open>maxParticles\<close> is
  stored without a proxy. \<^verbatim>\<open>fill\<close> is looked up once; \<^verbatim>\<open>set\<close> is looked up in
  every iteration of a loop, so at least once when the view is not empty.
\<close>

definition is_proxy :: "view \<Rightarrow> bool" where
  "is_proxy v = (case v of WholeArray \<Rightarrow> False | ProxySubarray off n \<Rightarrow> True)"

definition looks_up_mutator :: "instance_fill_value \<Rightarrow> nat \<Rightarrow> bool" where
  "looks_up_mutator val len = (case val of IScalar v \<Rightarrow> True | _ \<Rightarrow> 0 < len)"

definition fill_view :: "instance_fill_value \<Rightarrow> real list \<Rightarrow> real list outcome option" where
  "fill_view val data =
     (case val of
        IGenerator g \<Rightarrow> Some (index_loop g data 0)
      | IVector vs \<Rightarrow> tile_loop vs data 0
      | IScalar v \<Rightarrow> Some (Returned (typed_fill data v 0)))"

definition store_view :: "world \<Rightarrow> string \<Rightarrow> attribute \<Rightarrow> view \<Rightarrow> instance_fill_value \<Rightarrow> real list \<Rightarrow> world" where
  "store_view w name attr v val data =
     (let touched = is_proxy v \<and> looks_up_mutator val (view_length (array attr) v);
          attr' = attr\<lparr>array := write_view (array attr) v data,
                       needsUpdate := (touched \<or> needsUpdate attr)\<rparr>;
          e = the_emitter w
      in w\<lparr>the_emitter := e\<lparr>geometry_attributes := AList.update name attr' (geometry_attributes e)\<rparr>\<rparr>)"

text \<open>
  \<^verbatim>\<open>EmitterInstance.fillAttribute\<close>: a name for which \<^verbatim>\<open>this.attributes[attribute]\<close> is
  \<^verbatim>\<open>undefined\<close> is ignored. A view is created from an attribute of the geometry and no
  operation here removes one, so the buffer behind a view is the geometry's attribute
  of the same name. For a name the instance only inherits, \<^verbatim>\<open>data\<close> is a member of
  \<^verbatim>\<open>Object.prototype\<close>, which has neither \<^verbatim>\<open>set\<close> nor \<^verbatim>\<open>fill\<close>: \<^verbatim>\<open>data.fill(value)\<close>
  throws, and the loops throw in their first iteration, which they enter when the
  \<^verbatim>\<open>length\<close> of the member is positive.
\<close>

definition member_rejects :: "instance_fill_value \<Rightarrow> nat option \<Rightarrow> bool" where
  "member_rejects val len =
     (case val of
        IScalar v \<Rightarrow> True
      | _ \<Rightarrow> (case len of Some k \<Rightarrow> 0 < k | None \<Rightarrow> False))"

definition EmitterInstance_fillAttribute ::
  "world \<Rightarrow> nat \<Rightarrow> string \<Rightarrow> instance_fill_value \<Rightarrow> world outcome option" where
  "EmitterInstance_fillAttribute w i name val =
     (case get_property (attributes (instances w ! i)) name of
        Absent \<Rightarrow> Some (Returned w)
      | Inherited len \<Rightarrow> Some (if member_rejects val len then Threw TypeError w else Returned w)
      | Own v \<Rightarrow>
          (case map_of (geometry_attributes (the_emitter w)) name of
             None \<Rightarrow> Some (Returned w)
           | Some attr \<Rightarrow>
               (case fill_view val (read_view (array attr) v) of
                  None \<Rightarrow> None
                | Some (Threw err data) \<Rightarrow> Some (Threw err (store_view w name attr v val data))
                | Some (Returned data) \<Rightarrow> Some (Returned (store_view w name attr v val data)))))"

declare tile_loop.simps [code]
declare generator_loop.simps [code]

section \<open>Sequences of calls and what is observed of a state\<close>

fun outcome_state :: "'a outcome \<Rightarrow> 'a" where
  "outcome_state (Returned s) = s"
| "outcome_state (Threw err s) = s"

fun has_returned :: "'a outcome option \<Rightarrow> bool" where
  "has_returned (Some (Returned s)) = True"
| "has_returned r = False"

fun has_thrown :: "'a outcome option \<Rightarrow> bool" where
  "has_thrown (Some (Threw err s)) = True"
| "has_thrown r = False"

fun thrown_error :: "'a outcome option \<Rightarrow> error option" where
  "thrown_error (Some (Threw err s)) = Some err"
| "thrown_error r = None"

datatype call = Register nat | Unregister nat

fun handle :: "call \<Rightarrow> nat" where
  "handle (Register i) = i"
| "handle (Unregister i) = i"

fun apply_call :: "world \<Rightarrow> call \<Rightarrow> world outcome" where
  "apply_call w (Register i) = Returned (instanceAdded w i)"
| "apply_call w (Unregister i) = instanceRemoved w i"

fun run_calls :: "world \<Rightarrow> call list \<Rightarrow> world outcome" where
  "run_calls w [] = Returned w"
| "run_calls w (c # cs) =
     (case apply_call w c of
        Returned w' \<Rightarrow> run_calls w' cs
      | Threw err w' \<Rightarrow> Threw err w')"

text \<open>The sum of \<^verbatim>\<open>particleAmount\<close> over the registered instances.\<close>

definition registered_total :: "world \<Rightarrow> int" where
  "registered_total w =
     sum_list (map (\<lambda>i. particleAmount (instances w ! i)) (knownInstances (the_emitter w)))"

definition count_matches :: "world \<Rightarrow> bool" where
  "count_matches w \<longleftrightarrow>
     instanceCount (the_emitter w) = min (maxParticles (the_emitter w)) (registered_total w)"

text \<open>
  Every removal of a member in the run happens while the registered total is within
  \<^verbatim>\<open>maxParticles\<close>.
\<close>

fun removals_within_capacity :: "world \<Rightarrow> call list \<Rightarrow> bool" where
  "removals_within_capacity w [] = True"
| "removals_within_capacity w (c # cs) =
     ((case c of
         Register i \<Rightarrow> True
       | Unregister i \<Rightarrow>
           i \<notin> set (knownInstances (the_emitter w)) \<or>
           registered_total w \<le> maxParticles (the_emitter w)) \<and>
      (case apply_call w c of
         Returned w' \<Rightarrow> removals_within_capacity w' cs
       | Threw err w' \<Rightarrow> True))"

text \<open>
  What the calls are expected to keep: the count matches, no handle is registered twice,
  no particle amount is negative, and every registered handle is an instance object.
\<close>

definition call_invariant :: "world \<Rightarrow> bool" where
  "call_invariant w \<longleftrightarrow>
     count_matches w \<and> distinct (knownInstances (the_emitter w)) \<and>
     (\<forall>inst\<in>set (instances w). 0 \<le> particleAmount inst) \<and>
     (\<forall>i\<in>set (knownInstances (the_emitter w)). i < length (instances w))"

text \<open>What the view of an instance reads of the geometry's buffers, if it has one.\<close>

definition instance_reads :: "world \<Rightarrow> nat \<Rightarrow> string \<Rightarrow> real list option" where
  "instance_reads w i name =
     (case map_of (attributes (instances w ! i)) name of
        None \<Rightarrow> None
      | Some v \<Rightarrow>
          (case map_of (geometry_attributes (the_emitter w)) name of
             None \<Rightarrow> None
           | Some attr \<Rightarrow> Some (read_view (array attr) v)))"

section \<open>A small scene\<close>

text \<open>
  An emitter for at most 10 particles with one attribute \<open>pos\<close> of item size 3 (a buffer
  of 30 zeros), as \<^verbatim>\<open>new Emitter({maxParticles: 10, autoUpdate: false, attributes: ...})\<close>
  leaves it. Instance X (4 particles) is created and filled with \<open>[1, 1, 1]\<close>, then
  instance Y (3 particles) is created and filled with \<open>[2, 3, 4]\<close>.
\<close>

definition pos_attribute :: attribute where
  "pos_attribute =
     \<lparr>array = [0, 0, 0, 0, 0, 0, 0, 0, 0, 0, 0, 0, 0, 0, 0,
               0, 0, 0, 0, 0, 0, 0, 0, 0, 0, 0, 0, 0, 0, 0],
      itemSize = 3, count = 10, isInstanced = True, needsUpdate = False\<rparr>"

definition fresh_emitter :: emitter where
  "fresh_emitter =
     \<lparr>maxParticles = 10, instanceCount = 0, geometry_attributes = [(''pos'', pos_attribute)],
      knownInstances = [], timestamp = 0, time_uniform = 0, autoUpdate = False,
      scheduledFrames = 0\<rparr>"

definition fresh_world :: world where
  "fresh_world = \<lparr>the_emitter = fresh_emitter, instances = []\<rparr>"

definition filled :: "world outcome option \<Rightarrow> world \<Rightarrow> world" where
  "filled r w = (case r of Some (Returned w') \<Rightarrow> w' | _ \<Rightarrow> w)"

definition world_X :: world where
  "world_X =
     (let w = fst (new_EmitterInstance fresh_world 4)
      in filled (EmitterInstance_fillAttribute w 0 ''pos'' (IVector [1, 1, 1])) w)"

definition world_XY :: world where
  "world_XY =
     (let w = fst (new_EmitterInstance world_X 3)
      in filled (EmitterInstance_fillAttribute w 1 ''pos'' (IVector [2, 3, 4])) w)"

text \<open>Two instances of 8 particles each on the same emitter.\<close>

definition world_AB :: world where
  "world_AB = fst (new_EmitterInstance (fst (new_EmitterInstance fresh_world 8)) 8)"

text \<open>
  An emitter with a second attribute \<open>tint\<close> of three items, fewer than \<^verbatim>\<open>maxParticles\<close>,
  and one instance of 4 particles.
\<close>

definition tint_attribute :: attribute where
  "tint_attribute =
     \<lparr>array = [0, 0, 0], itemSize = 1, count = 3, isInstanced = True, needsUpdate = False\<rparr>"

definition tint_emitter :: emitter where
  "tint_emitter =
     fresh_emitter\<lparr>geometry_attributes := [(''pos'', pos_attribute), (''tint'', tint_attribute)]\<rparr>"

definition world_tint :: world where
  "world_tint = fst (new_EmitterInstance (fresh_world\<lparr>the_emitter := tint_emitter\<rparr>) 4)"

text \<open>
  An emitter with a second attribute of the shape of \<open>pos\<close> that is named \<open>valueOf\<close>, as
  \<^verbatim>\<open>new Emitter({maxParticles: 10, attributes: {pos: ..., valueOf: ...}})\<close> makes it, and
  one instance of 4 particles.
\<close>

definition valueOf_emitter :: emitter where
  "valueOf_emitter =
     fresh_emitter\<lparr>geometry_attributes := [(''pos'', pos_attribute), (''valueOf'', pos_attribute)]\<rparr>"

definition world_valueOf :: world where
  "world_valueOf = fst (new_EmitterInstance (fresh_world\<lparr>the_emitter := valueOf_emitter\<rparr>) 4)"

text \<open>
  An emitter with a second attribute of the shape of \<open>tint\<close> that is named \<open>toString\<close>.
\<close>

definition toString_emitter :: emitter where
  "toString_emitter =
     fresh_emitter\<lparr>geometry_attributes := [(''pos'', pos_attribute), (''toString'', tint_attribute)]\<rparr>"

text \<open>
  The emitter of X after \<^verbatim>\<open>emitter.maxParticles = 20\<close>: the \<^verbatim>\<open>count\<close> of \<open>pos\<close>, 10, is
  now below \<^verbatim>\<open>maxParticles\<close>.
\<close>

definition raised_emitter :: emitter where
  "raised_emitter = (the_emitter world_X)\<lparr>maxParticles := 20\<rparr>"

section \<open>The particle amount of the emitter\<close>

text \<open>
  C6, as amended: the setter of \<^verbatim>\<open>particleAmount\<close> stores the number it is given,
  whatever it is and whatever \<^verbatim>\<open>maxParticles\<close> is, changing nothing else; the getter
  returns the stored number.
\<close>

theorem set_particleAmount_stores:
  "get_particleAmount (set_particleAmount e n) = n \<and>
   set_particleAmount e n = e\<lparr>instanceCount := n\<rparr>"
  by (simp add: get_particleAmount_def set_particleAmount_def)

text \<open>
  C6, as stated, fails: on the emitter with \<^verbatim>\<open>maxParticles = 10\<close>, setting the particle
  amount to 15 stores 15, which is outside \<open>[0, 10]\<close>.
\<close>

theorem set_particleAmount_not_clamped:
  "\<not> (0 \<le> get_particleAmount (set_particleAmount fresh_emitter 15) \<and>
      get_particleAmount (set_particleAmount fresh_emitter 15) \<le> maxParticles fresh_emitter)"
  by (simp add: get_particleAmount_def set_particleAmount_def fresh_emitter_def)

section \<open>Registering twice, unregistering a non-member\<close>

text \<open>
  C7: \<^verbatim>\<open>instanceAdded\<close> with an instance that is registered already changes nothing:
  the known instances and \<^verbatim>\<open>instanceCount\<close> (and all the rest of the state) stay as
  they are. So registering a second time has no further effect.
\<close>

theorem instanceAdded_idempotent:
  "(i \<in> set (knownInstances (the_emitter w)) \<longrightarrow> instanceAdded w i = w) \<and>
   instanceAdded (instanceAdded w i) i = instanceAdded w i"
  by (simp add: instanceAdded_def Let_def)

theorem instanceAdded_idempotent_witness:
  "0 \<in> set (knownInstances (the_emitter world_X)) \<and> instanceAdded world_X 0 = world_X"
proof -
  have known: "0 \<in> set (knownInstances (the_emitter world_X))"
    by code_simp
  with instanceAdded_idempotent [of 0 world_X] show ?thesis
    by blast
qed

lemma removeAndShiftLoop_known:
  "removeAndShiftLoop inst vs e = Returned e' \<Longrightarrow> knownInstances e' = knownInstances e"
  by (induction inst vs e rule: removeAndShiftLoop.induct)
     (auto simp: Let_def split: property.splits sum.splits)

text \<open>
  C8: \<^verbatim>\<open>instanceRemoved\<close> with an instance that is not registered returns the state
  unchanged: \<^verbatim>\<open>instanceCount\<close>, every buffer and its \<^verbatim>\<open>needsUpdate\<close>, and the known
  instances. After a removal that returned, the instance is not registered, so removing
  it a second time changes nothing either.
\<close>

theorem instanceRemoved_non_member:
  "(i \<notin> set (knownInstances (the_emitter w)) \<longrightarrow> instanceRemoved w i = Returned w) \<and>
   (instanceRemoved w i = Returned w' \<longrightarrow> instanceRemoved w' i = Returned w')"
proof
  show "i \<notin> set (knownInstances (the_emitter w)) \<longrightarrow> instanceRemoved w i = Returned w"
    by (simp add: instanceRemoved_def)
  show "instanceRemoved w i = Returned w' \<longrightarrow> instanceRemoved w' i = Returned w'"
  proof
    assume r: "instanceRemoved w i = Returned w'"
    have "i \<notin> set (knownInstances (the_emitter w'))"
      using r
      by (auto simp: instanceRemoved_def Let_def removeAndShiftAttributes_def
               split: if_splits outcome.splits dest: removeAndShiftLoop_known)
    then show "instanceRemoved w' i = Returned w'"
      by (simp add: instanceRemoved_def)
  qed
qed

theorem instanceRemoved_non_member_witness:
  "7 \<notin> set (knownInstances (the_emitter world_XY)) \<and>
   instanceRemoved world_XY 7 = Returned world_XY \<and>
   instanceRemoved world_XY 0 = Returned (outcome_state (instanceRemoved world_XY 0)) \<and>
   instanceRemoved (outcome_state (instanceRemoved world_XY 0)) 0 =
     Returned (outcome_state (instanceRemoved world_XY 0))"
proof -
  have stranger: "7 \<notin> set (knownInstances (the_emitter world_XY))"
    by code_simp
  have "has_returned (Some (instanceRemoved world_XY 0))"
    by code_simp
  then have first: "instanceRemoved world_XY 0 = Returned (outcome_state (instanceRemoved world_XY 0))"
    by (cases "instanceRemoved world_XY 0") simp_all
  from instanceRemoved_non_member [of 7 world_XY] stranger
  have a: "instanceRemoved world_XY 7 = Returned world_XY"
    by blast
  from instanceRemoved_non_member [of 0 world_XY "outcome_state (instanceRemoved world_XY 0)"] first
  have b: "instanceRemoved (outcome_state (instanceRemoved world_XY 0)) 0 =
             Returned (outcome_state (instanceRemoved world_XY 0))"
    by blast
  from stranger a first b show ?thesis
    by blast
qed

section \<open>The time uniform\<close>

text \<open>
  C9, as amended: every call of \<^verbatim>\<open>update\<close> stores the current clock reading as the
  timestamp; a call that finds the timestamp \<open>0\<close> (its initial value, which the code
  takes for "no previous timestamp") adds nothing to the time uniform, and a call that
  finds a timestamp \<open>p \<noteq> 0\<close> adds \<open>(now - p) / 1000\<close>.
\<close>

theorem update_adds_delta:
  "time_uniform (update now e) =
     time_uniform e + (if timestamp e = 0 then 0 else real_of_int (now - timestamp e) / 1000) \<and>
   timestamp (update now e) = now"
  by (simp add: update_def time_delta_def Let_def)

text \<open>
  C9, as stated, fails for a tick that follows a tick at clock reading \<open>0\<close>: after the
  ticks at \<open>0\<close> and \<open>5000\<close> on a new emitter, the second tick has added nothing, not
  \<open>(5000 - 0) / 1000\<close>.
\<close>

theorem update_after_zero_timestamp:
  "time_uniform (updates [0, 5000] fresh_emitter) \<noteq>
     time_uniform (updates [0] fresh_emitter) + real_of_int (5000 - 0) / 1000"
  by (simp add: update_def time_delta_def Let_def fresh_emitter_def)

section \<open>The instance count along registrations and removals\<close>

lemma removeAndShiftLoop_frame:
  "removeAndShiftLoop inst vs e = Returned e' \<Longrightarrow>
     maxParticles e' = maxParticles e \<and> instanceCount e' = instanceCount e"
  by (induction inst vs e rule: removeAndShiftLoop.induct)
     (auto simp: Let_def split: property.splits sum.splits)

lemma instanceRemoved_member:
  assumes "instanceRemoved w i = Returned w'" and "i \<in> set (knownInstances (the_emitter w))"
  shows "instances w' = instances w"
    and "maxParticles (the_emitter w') = maxParticles (the_emitter w)"
    and "knownInstances (the_emitter w') = removeAll i (knownInstances (the_emitter w))"
    and "instanceCount (the_emitter w') =
           max 0 (instanceCount (the_emitter w) - particleAmount (instances w ! i))"
  using assms
  by (auto simp: instanceRemoved_def Let_def removeAndShiftAttributes_def
           split: outcome.splits dest: removeAndShiftLoop_known removeAndShiftLoop_frame)

lemma sum_list_removeAll_distinct:
  "distinct xs \<Longrightarrow> i \<in> set xs \<Longrightarrow>
     sum_list (map f (removeAll i xs)) = sum_list (map f xs) - (f i :: int)"
  by (induction xs) auto

lemma sum_list_nonneg_amounts:
  "\<forall>i\<in>set xs. 0 \<le> (f i :: int) \<Longrightarrow> 0 \<le> sum_list (map f xs)"
  by (induction xs) auto

lemma min_saturating_add:
  "0 \<le> a \<Longrightarrow> min m (min m s + a) = min m (s + (a::int))"
  by (simp add: min_def)

lemma instanceRemoved_instances:
  assumes "instanceRemoved w i = Returned w'"
  shows "instances w' = instances w"
proof (cases "i \<in> set (knownInstances (the_emitter w))")
  case True
  with assms show ?thesis by (rule instanceRemoved_member(1))
next
  case False
  with assms show ?thesis by (auto simp: instanceRemoved_def)
qed

lemma instanceAdded_invariant:
  assumes "call_invariant w" and "i < length (instances w)"
  shows "call_invariant (instanceAdded w i)"
proof -
  have "0 \<le> particleAmount (instances w ! i)"
    using assms by (simp add: call_invariant_def)
  then have "min (maxParticles (the_emitter w)) (min (maxParticles (the_emitter w)) (registered_total w)
               + particleAmount (instances w ! i)) =
             min (maxParticles (the_emitter w)) (registered_total w + particleAmount (instances w ! i))"
    by (rule min_saturating_add)
  then show ?thesis
    using assms
    by (auto simp: call_invariant_def count_matches_def registered_total_def instanceAdded_def Let_def)
qed

lemma instanceRemoved_invariant:
  assumes inv: "call_invariant w"
    and ret: "instanceRemoved w i = Returned w'"
    and cap: "i \<notin> set (knownInstances (the_emitter w)) \<or>
              registered_total w \<le> maxParticles (the_emitter w)"
  shows "call_invariant w'"
proof (cases "i \<in> set (knownInstances (the_emitter w))")
  case False
  then have "w' = w" using ret by (simp add: instanceRemoved_def)
  with inv show ?thesis by simp
next
  case True
  note m = instanceRemoved_member [OF ret True]
  let ?f = "\<lambda>j. particleAmount (instances w ! j)"
  let ?xs = "knownInstances (the_emitter w)"
  have d: "distinct ?xs" and nn: "\<forall>j\<in>set ?xs. 0 \<le> ?f j"
    using inv by (auto simp: call_invariant_def)
  have tot: "registered_total w' = registered_total w - ?f i"
    using m d True by (simp add: registered_total_def sum_list_removeAll_distinct)
  have "\<forall>j\<in>set (removeAll i ?xs). 0 \<le> ?f j" using nn by simp
  then have "0 \<le> sum_list (map ?f (removeAll i ?xs))"
    by (rule sum_list_nonneg_amounts)
  then have rest: "0 \<le> registered_total w'"
    using m by (simp add: registered_total_def)
  have amount: "0 \<le> ?f i" using nn True by simp
  have within: "registered_total w \<le> maxParticles (the_emitter w)"
    using cap True by simp
  have "instanceCount (the_emitter w) = registered_total w"
    using inv within by (simp add: call_invariant_def count_matches_def)
  then have "count_matches w'"
    using m tot rest amount within by (simp add: count_matches_def)
  then show ?thesis
    using inv m by (auto simp: call_invariant_def distinct_removeAll)
qed

text \<open>
  C2, as amended: take a state in which \<^verbatim>\<open>instanceCount\<close> is the minimum of
  \<^verbatim>\<open>maxParticles\<close> and the sum of \<^verbatim>\<open>particleAmount\<close> over the registered instances, no
  particle amount is negative and the handles are instance objects. After every sequence
  of \<^verbatim>\<open>instanceAdded\<close> and \<^verbatim>\<open>instanceRemoved\<close> calls that return, in which each removal of a
  registered instance is made while that sum does not exceed \<^verbatim>\<open>maxParticles\<close>, the
  count is that minimum again. (A prefix of such a sequence is such a sequence, so this
  holds after each call.)
\<close>

theorem count_matches_within_capacity:
  assumes "count_matches w"
    and "distinct (knownInstances (the_emitter w))"
    and "\<forall>inst\<in>set (instances w). 0 \<le> particleAmount inst"
    and "\<forall>i\<in>set (knownInstances (the_emitter w)). i < length (instances w)"
    and "\<forall>c\<in>set cs. handle c < length (instances w)"
    and "removals_within_capacity w cs"
    and "run_calls w cs = Returned w'"
  shows "count_matches w'"
proof -
  have "call_invariant w \<Longrightarrow> \<forall>c\<in>set cs. handle c < length (instances w) \<Longrightarrow>
        removals_within_capacity w cs \<Longrightarrow> run_calls w cs = Returned w' \<Longrightarrow> call_invariant w'"
  proof (induction cs arbitrary: w)
    case Nil
    then show ?case by simp
  next
    case (Cons c cs)
    show ?case
    proof (cases c)
      case (Register i)
      let ?w1 = "instanceAdded w i"
      have "call_invariant ?w1"
        using Cons.prems Register by (simp add: instanceAdded_invariant)
      moreover have "instances ?w1 = instances w"
        by (simp add: instanceAdded_def Let_def)
      ultimately show ?thesis
        using Cons.IH [of ?w1] Cons.prems Register by simp
    next
      case (Unregister i)
      from Cons.prems Unregister obtain w1 where
        ret: "instanceRemoved w i = Returned w1" and rest: "run_calls w1 cs = Returned w'"
        by (auto split: outcome.splits)
      have inv1: "call_invariant w1"
        using Cons.prems Unregister ret by (auto intro: instanceRemoved_invariant)
      have "instances w1 = instances w"
        using ret by (rule instanceRemoved_instances)
      then show ?thesis
        using Cons.IH [of w1] inv1 Cons.prems Unregister ret rest by simp
    qed
  qed
  with assms show ?thesis
    by (simp add: call_invariant_def)
qed

theorem count_matches_within_capacity_witness:
  "count_matches world_XY \<and>
   distinct (knownInstances (the_emitter world_XY)) \<and>
   list_all (\<lambda>inst. 0 \<le> particleAmount inst) (instances world_XY) \<and>
   list_all (\<lambda>i. i < length (instances world_XY)) (knownInstances (the_emitter world_XY)) \<and>
   list_all (\<lambda>c. handle c < length (instances world_XY)) [Unregister 0, Register 0, Unregister 1] \<and>
   removals_within_capacity world_XY [Unregister 0, Register 0, Unregister 1] \<and>
   run_calls world_XY [Unregister 0, Register 0, Unregister 1] =
     Returned (outcome_state (run_calls world_XY [Unregister 0, Register 0, Unregister 1])) \<and>
   count_matches (outcome_state (run_calls world_XY [Unregister 0, Register 0, Unregister 1]))"
proof -
  let ?cs = "[Unregister 0, Register 0, Unregister 1]"
  have h1: "count_matches world_XY" by code_simp
  have h2: "distinct (knownInstances (the_emitter world_XY))" by code_simp
  have h3: "list_all (\<lambda>inst. 0 \<le> particleAmount inst) (instances world_XY)" by code_simp
  have h4: "list_all (\<lambda>i. i < length (instances world_XY)) (knownInstances (the_emitter world_XY))"
    by code_simp
  have h5: "list_all (\<lambda>c. handle c < length (instances world_XY)) ?cs" by code_simp
  have h6: "removals_within_capacity world_XY ?cs" by code_simp
  have "has_returned (Some (run_calls world_XY ?cs))" by code_simp
  then have h7: "run_calls world_XY ?cs = Returned (outcome_state (run_calls world_XY ?cs))"
    by (cases "run_calls world_XY ?cs") simp_all
  have "count_matches (outcome_state (run_calls world_XY ?cs))"
    using count_matches_within_capacity [of world_XY ?cs, OF h1 h2 _ _ _ h6 h7] h3 h4 h5
    by (simp add: list_all_iff)
  with h1 h2 h3 h4 h5 h6 h7 show ?thesis by blast
qed

text \<open>
  C2, as stated, fails once the sum has exceeded \<^verbatim>\<open>maxParticles\<close>: with two instances
  of 8 particles on an emitter for 10, the count is 10; removing the first one leaves
  \<open>max 0 (10 - 8) = 2\<close>, while the remaining instance has 8 particles.
\<close>

theorem count_falls_short_after_removal:
  "count_matches world_AB \<and>
   instanceCount (the_emitter (outcome_state (instanceRemoved world_AB 0))) = 2 \<and>
   registered_total (outcome_state (instanceRemoved world_AB 0)) = 8 \<and>
   \<not> count_matches (outcome_state (instanceRemoved world_AB 0))"
  by code_simp

section \<open>The views an instance computes\<close>

lemma subarray_step_amount:
  "particleAmount (subarray_step e entry inst) = particleAmount inst"
  by (cases entry) (simp add: subarray_step_def Let_def split: property.splits)

lemma subarray_step_other:
  assumes "fst entry \<noteq> name"
  shows "attributeIndices (subarray_step e entry inst) name = attributeIndices inst name"
    and "map_of (attributes (subarray_step e entry inst)) name = map_of (attributes inst) name"
  using assms
  by (cases entry;
      simp add: subarray_step_def Let_def set_property_def record_index_def update_conv'
           split: property.splits)+

lemma fold_subarray_step_amount:
  "particleAmount (fold (subarray_step e) attrs inst) = particleAmount inst"
  by (induction attrs arbitrary: inst) (simp_all add: subarray_step_amount)

lemma fold_subarray_step_other:
  assumes "name \<notin> fst ` set attrs"
  shows "attributeIndices (fold (subarray_step e) attrs inst) name = attributeIndices inst name \<and>
         map_of (attributes (fold (subarray_step e) attrs inst)) name = map_of (attributes inst) name"
  using assms
proof (induction attrs arbitrary: inst)
  case Nil
  then show ?case by simp
next
  case (Cons entry attrs)
  then have "fst entry \<noteq> name" and "name \<notin> fst ` set attrs"
    by auto
  with Cons.IH [of "subarray_step e entry inst"] show ?case
    by (simp add: subarray_step_other)
qed

lemma fold_subarray_step_entry:
  assumes "distinct (map fst attrs)" and "(name, attr) \<in> set attrs"
  shows "\<exists>inst0. attributeIndices inst0 name = attributeIndices inst name \<and>
           map_of (attributes inst0) name = map_of (attributes inst) name \<and>
           particleAmount inst0 = particleAmount inst \<and>
           attributeIndices (fold (subarray_step e) attrs inst) name =
             attributeIndices (subarray_step e (name, attr) inst0) name \<and>
           map_of (attributes (fold (subarray_step e) attrs inst)) name =
             map_of (attributes (subarray_step e (name, attr) inst0)) name"
  using assms
proof (induction attrs arbitrary: inst)
  case Nil
  then show ?case by simp
next
  case (Cons entry attrs)
  show ?case
  proof (cases "fst entry = name")
    case True
    with Cons.prems have here: "entry = (name, attr)" and later: "name \<notin> fst ` set attrs"
      by (auto simp: image_iff)
    from fold_subarray_step_other [OF later, of e "subarray_step e entry inst"] here
    show ?thesis
      by (intro exI [of _ inst]) simp
  next
    case False
    with Cons.prems have "distinct (map fst attrs)" and "(name, attr) \<in> set attrs"
      by auto
    from Cons.IH [OF this, of "subarray_step e entry inst"] False show ?thesis
      by (simp add: subarray_step_other subarray_step_amount)
  qed
qed

text \<open>
  For a name that \<^verbatim>\<open>Object.prototype\<close> does not provide, the lookups see the own
  properties only and the assignments store one.
\<close>

lemma ordinary_name:
  assumes "\<not> inherited_name name"
  shows "name \<noteq> ''__proto__''"
    and "recorded_index inst name = attributeIndices inst name"
    and "get_property obj name = (case map_of obj name of Some v \<Rightarrow> Own v | None \<Rightarrow> Absent)"
proof -
  show "name \<noteq> ''__proto__''"
    using assms by (auto simp: inherited_name_def Object_prototype_def)
  show "recorded_index inst name = attributeIndices inst name"
    using assms by (simp add: recorded_index_def split: option.splits)
  show "get_property obj name = (case map_of obj name of Some v \<Rightarrow> Own v | None \<Rightarrow> Absent)"
    using assms by (simp add: get_property_def inherited_name_def split: option.splits)
qed

lemma subarray_step_ordinary:
  assumes "\<not> inherited_name name"
  shows "maxParticles e \<le> count attr \<Longrightarrow> attributeIndices inst name = None \<Longrightarrow>
           attributeIndices (subarray_step e (name, attr) inst) name =
             Some (Index (max 0 (instanceCount e * itemSize attr))) \<and>
           map_of (attributes (subarray_step e (name, attr) inst)) name =
             Some (ProxySubarray
               (fst (subarray (length (array attr)) (max 0 (instanceCount e * itemSize attr))
                  (min (int (length (array attr)))
                     (max 0 (instanceCount e * itemSize attr) + particleAmount inst * itemSize attr))))
               (snd (subarray (length (array attr)) (max 0 (instanceCount e * itemSize attr))
                  (min (int (length (array attr)))
                     (max 0 (instanceCount e * itemSize attr) + particleAmount inst * itemSize attr)))))"
    and "maxParticles e \<le> count attr \<Longrightarrow> attributeIndices inst name = Some (Index s) \<Longrightarrow>
           attributeIndices (subarray_step e (name, attr) inst) name = Some (Index s) \<and>
           map_of (attributes (subarray_step e (name, attr) inst)) name =
             Some (ProxySubarray
               (fst (subarray (length (array attr)) s
                  (min (int (length (array attr))) (s + particleAmount inst * itemSize attr))))
               (snd (subarray (length (array attr)) s
                  (min (int (length (array attr))) (s + particleAmount inst * itemSize attr)))))"
    and "count attr < maxParticles e \<Longrightarrow>
           attributeIndices (subarray_step e (name, attr) inst) name = attributeIndices inst name \<and>
           map_of (attributes (subarray_step e (name, attr) inst)) name =
             Some (case map_of (attributes inst) name of None \<Rightarrow> WholeArray | Some v \<Rightarrow> v)"
  by (simp_all add: ordinary_name [OF assms] subarray_step_def Let_def set_property_def
                    record_index_def update_conv'
               split: option.splits)

lemma rel_index_le: "rel_index k len \<le> len"
  unfolding rel_index_def by auto

lemma subarray_within: "fst (subarray len b e) + snd (subarray len b e) \<le> len"
  using rel_index_le [of b len] rel_index_le [of e len]
  by (simp add: subarray_def Let_def)

lemma subarray_fits:
  assumes "0 \<le> s" and "0 \<le> d" and "s + d \<le> int len"
  shows "subarray len s (min (int len) (s + d)) = (nat s, nat d)"
proof -
  have "min (int len) (s + d) = s + d" using assms by simp
  moreover have "rel_index s len = nat s" using assms by (simp add: rel_index_def)
  moreover have "rel_index (s + d) len = nat (s + d)" using assms by (simp add: rel_index_def)
  moreover have "nat (s + d) - nat s = nat d" using assms by simp
  ultimately show ?thesis by (simp add: subarray_def Let_def)
qed

lemma subarray_exceeds:
  assumes "0 \<le> s" and "int len < s + d"
  shows "subarray len s (min (int len) (s + d)) = (min (nat s) len, len - min (nat s) len)"
proof -
  have "min (int len) (s + d) = int len" using assms by simp
  moreover have "rel_index s len = min (nat s) len" using assms by (simp add: rel_index_def)
  moreover have "rel_index (int len) len = len" by (simp add: rel_index_def)
  ultimately show ?thesis by (simp add: subarray_def Let_def)
qed

subsection \<open>The view of a new instance\<close>

text \<open>
  C5 on an attribute named \<open>valueOf\<close>, with 30 numbers of item size 3 like \<open>pos\<close>, while
  \<^verbatim>\<open>instanceCount\<close> is 4. A new instance of 3 particles records the index \<open>4 * 3\<close> for
  \<open>pos\<close> and gets the window of \<open>3 * 3\<close> numbers at offset 12. For \<open>valueOf\<close> the lookup
  \<^verbatim>\<open>this.attributeIndices[name]\<close> of the new, empty object yields the function
  \<^verbatim>\<open>Object.prototype.valueOf\<close>, which is not nullish: that function is recorded as the
  index, and the view is \<^verbatim>\<open>subarray(0, 0)\<close>, empty and at offset 0.
\<close>

theorem inherited_name_gets_empty_view:
  "instanceCount (the_emitter world_valueOf) = 4 \<and>
   map (\<lambda>entry. (fst entry, itemSize (snd entry), count (snd entry), length (array (snd entry))))
       (geometry_attributes (the_emitter world_valueOf)) =
     [(''pos'', 3, 10, 30), (''valueOf'', 3, 10, 30)] \<and>
   maxParticles (the_emitter world_valueOf) = 10 \<and>
   attributeIndices (instances (fst (new_EmitterInstance world_valueOf 3)) !
       snd (new_EmitterInstance world_valueOf 3)) ''pos'' = Some (Index 12) \<and>
   map_of (attributes (instances (fst (new_EmitterInstance world_valueOf 3)) !
       snd (new_EmitterInstance world_valueOf 3))) ''pos'' = Some (ProxySubarray 12 9) \<and>
   attributeIndices (instances (fst (new_EmitterInstance world_valueOf 3)) !
       snd (new_EmitterInstance world_valueOf 3)) ''valueOf'' = Some Member \<and>
   map_of (attributes (instances (fst (new_EmitterInstance world_valueOf 3)) !
       snd (new_EmitterInstance world_valueOf 3))) ''valueOf'' = Some (ProxySubarray 0 0)"
  by code_simp

text \<open>
  For every name that \<^verbatim>\<open>Object.prototype\<close> does not provide (no attribute being named
  \<^verbatim>\<open>__proto__\<close>), the new instance gets what the claim says: when an instance of \<open>n\<close> particles is created while \<^verbatim>\<open>instanceCount\<close>
  is \<open>T\<close>, then for an attribute of item size \<open>w\<close> whose \<^verbatim>\<open>count\<close> reaches
  \<^verbatim>\<open>maxParticles\<close> the recorded index is \<open>T * w\<close>; the view starts there and has length
  \<open>n * w\<close> when \<open>T * w + n * w\<close> is within the buffer, and otherwise it is cut at the end
  of the buffer (it starts at \<open>T * w\<close>, or at the end of the buffer when \<open>T * w\<close> lies
  beyond it). The constructor has no failing branch. The numbers are taken non-negative.
\<close>

lemma registration_view:
  assumes new: "new_EmitterInstance w n = (w', i)"
    and names: "distinct (map fst (geometry_attributes (the_emitter w)))"
    and entry: "(name, attr) \<in> set (geometry_attributes (the_emitter w))"
    and ordinary: "\<not> inherited_name name"
    and no_proto: "''__proto__'' \<notin> fst ` set (geometry_attributes (the_emitter w))"
    and per_instance: "maxParticles (the_emitter w) \<le> count attr"
    and nonneg: "0 \<le> instanceCount (the_emitter w)" "0 \<le> itemSize attr" "0 \<le> n"
  shows "attributeIndices (instances w' ! i) name =
           Some (Index (instanceCount (the_emitter w) * itemSize attr)) \<and>
         (instanceCount (the_emitter w) * itemSize attr + n * itemSize attr \<le> int (length (array attr)) \<longrightarrow>
            map_of (attributes (instances w' ! i)) name =
              Some (ProxySubarray (nat (instanceCount (the_emitter w) * itemSize attr)) (nat (n * itemSize attr)))) \<and>
         (int (length (array attr)) < instanceCount (the_emitter w) * itemSize attr + n * itemSize attr \<longrightarrow>
            map_of (attributes (instances w' ! i)) name =
              Some (ProxySubarray
                (min (nat (instanceCount (the_emitter w) * itemSize attr)) (length (array attr)))
                (length (array attr) - min (nat (instanceCount (the_emitter w) * itemSize attr)) (length (array attr)))))"
proof -
  let ?e = "the_emitter w"
  let ?blank = "blank_instance n"
  let ?inst = "calculateAttributeSubarrays ?e ?blank"
  let ?start = "instanceCount ?e * itemSize attr"
  let ?len = "length (array attr)"
  have i: "i = length (instances w)" and w': "w' = instanceAdded (w\<lparr>instances := instances w @ [?inst]\<rparr>) i"
    using new by (auto simp: new_EmitterInstance_def Let_def)
  have inst: "instances w' ! i = ?inst"
    unfolding w' i by (simp add: instanceAdded_def Let_def)
  from fold_subarray_step_entry [OF names entry, of ?blank ?e]
  obtain inst0 where idx0: "attributeIndices inst0 name = None"
    and amount0: "particleAmount inst0 = n"
    and idx: "attributeIndices ?inst name = attributeIndices (subarray_step ?e (name, attr) inst0) name"
    and view: "map_of (attributes ?inst) name = map_of (attributes (subarray_step ?e (name, attr) inst0)) name"
    by (auto simp: calculateAttributeSubarrays_def blank_instance_def)
  have start: "0 \<le> ?start" and width: "0 \<le> n * itemSize attr"
    using nonneg by simp_all
  then have clamp: "max 0 ?start = ?start" by simp
  let ?window = "subarray ?len ?start (min (int ?len) (?start + n * itemSize attr))"
  note step = subarray_step_ordinary(1) [OF ordinary per_instance idx0, unfolded clamp amount0]
  have "attributeIndices ?inst name = Some (Index ?start)"
    using idx step by simp
  moreover have window: "map_of (attributes ?inst) name =
      Some (ProxySubarray (fst ?window) (snd ?window))"
    using view step by simp
  moreover have "map_of (attributes ?inst) name =
      Some (ProxySubarray (nat ?start) (nat (n * itemSize attr)))"
    if "?start + n * itemSize attr \<le> int ?len"
    using window subarray_fits [OF start width that] by simp
  moreover have "map_of (attributes ?inst) name =
      Some (ProxySubarray (min (nat ?start) ?len) (?len - min (nat ?start) ?len))"
    if "int ?len < ?start + n * itemSize attr"
    using window subarray_exceeds [OF start that] by simp
  ultimately show ?thesis
    unfolding inst by blast
qed

lemma registration_view_example:
  "maxParticles (the_emitter world_X) \<le> count (snd (hd (geometry_attributes (the_emitter world_X)))) \<and>
   instanceCount (the_emitter world_X) = 4 \<and>
   attributeIndices (instances (fst (new_EmitterInstance world_X 3)) ! snd (new_EmitterInstance world_X 3)) ''pos''
     = Some (Index 12) \<and>
   map_of (attributes (instances (fst (new_EmitterInstance world_X 3)) ! snd (new_EmitterInstance world_X 3))) ''pos''
     = Some (ProxySubarray 12 9) \<and>
   instanceCount (the_emitter (fst (new_EmitterInstance fresh_world 8))) = 8 \<and>
   map_of (attributes (instances (fst (new_EmitterInstance (fst (new_EmitterInstance fresh_world 8)) 8)) !
       snd (new_EmitterInstance (fst (new_EmitterInstance fresh_world 8)) 8))) ''pos''
     = Some (ProxySubarray 24 6)"
proof -
  let ?attr = "snd (hd (geometry_attributes (the_emitter world_X)))"
  let ?new = "new_EmitterInstance world_X 3"
  have new: "?new = (fst ?new, snd ?new)" by simp
  have ordinary: "\<not> inherited_name ''pos''" by code_simp
  have names: "distinct (map fst (geometry_attributes (the_emitter world_X)))" by code_simp
  have entry: "(''pos'', ?attr) \<in> set (geometry_attributes (the_emitter world_X))" by code_simp
  have no_proto: "''__proto__'' \<notin> fst ` set (geometry_attributes (the_emitter world_X))" by code_simp
  have per_instance: "maxParticles (the_emitter world_X) \<le> count ?attr" by code_simp
  have total: "instanceCount (the_emitter world_X) = 4" by code_simp
  have width: "itemSize ?attr = 3" by code_simp
  have len: "length (array ?attr) = 30" by code_simp
  have fits: "attributeIndices (instances (fst ?new) ! snd ?new) ''pos'' = Some (Index 12) \<and>
      map_of (attributes (instances (fst ?new) ! snd ?new)) ''pos'' = Some (ProxySubarray 12 9)"
    using registration_view [OF new names entry ordinary no_proto per_instance] total width len by simp
  let ?w = "fst (new_EmitterInstance fresh_world 8)"
  let ?attr' = "snd (hd (geometry_attributes (the_emitter ?w)))"
  let ?new' = "new_EmitterInstance ?w 8"
  have new': "?new' = (fst ?new', snd ?new')" by simp
  have names': "distinct (map fst (geometry_attributes (the_emitter ?w)))" by code_simp
  have entry': "(''pos'', ?attr') \<in> set (geometry_attributes (the_emitter ?w))" by code_simp
  have no_proto': "''__proto__'' \<notin> fst ` set (geometry_attributes (the_emitter ?w))" by code_simp
  have per_instance': "maxParticles (the_emitter ?w) \<le> count ?attr'" by code_simp
  have total': "instanceCount (the_emitter ?w) = 8" by code_simp
  have width': "itemSize ?attr' = 3" by code_simp
  have len': "length (array ?attr') = 30" by code_simp
  have exceeds: "map_of (attributes (instances (fst ?new') ! snd ?new')) ''pos'' = Some (ProxySubarray 24 6)"
    using registration_view [OF new' names' entry' ordinary no_proto' per_instance'] total' width' len' by simp
  from per_instance total fits total' exceeds show ?thesis by blast
qed

subsection \<open>Which attributes get a window\<close>

text \<open>
  C10, as stated, fails when the views are computed again: after \<^verbatim>\<open>maxParticles\<close> was
  raised from 10 to 20, the \<^verbatim>\<open>count\<close> of \<open>pos\<close>, 10, is below it, but
  \<^verbatim>\<open>calculateAttributeSubarrays\<close> on X keeps the window of 12 numbers X holds; X is not
  given the whole buffer.
\<close>

theorem recomputed_view_is_kept:
  "count (snd (hd (geometry_attributes raised_emitter))) < maxParticles raised_emitter \<and>
   fst (hd (geometry_attributes raised_emitter)) = ''pos'' \<and>
   map_of (attributes (instances world_X ! 0)) ''pos'' = Some (ProxySubarray 0 12) \<and>
   map_of (attributes (calculateAttributeSubarrays raised_emitter (instances world_X ! 0))) ''pos'' =
     Some (ProxySubarray 0 12) \<and>
   map_of (attributes (calculateAttributeSubarrays raised_emitter (instances world_X ! 0))) ''pos'' \<noteq>
     Some WholeArray"
  by code_simp

text \<open>
  C10, as amended: when an instance computes its views, then for every attribute of the
  geometry whose name \<^verbatim>\<open>Object.prototype\<close> does not provide (no attribute being named
  \<^verbatim>\<open>__proto__\<close>), whatever type it was declared with (\<open>isInstanced\<close> is not read):
  \<^item> if its \<^verbatim>\<open>count\<close> is at least \<^verbatim>\<open>maxParticles\<close>, the instance records as index the
    number it has recorded for the name already or else \<open>max 0 (instanceCount * itemSize)\<close>,
    and its view is the proxied window \<^verbatim>\<open>subarray(start, end)\<close> from that index to
    \<open>min (array.length) (start + particleAmount * itemSize)\<close>, which lies within the
    buffer;
  \<^item> if its \<^verbatim>\<open>count\<close> is below \<^verbatim>\<open>maxParticles\<close>, the recorded index is left as it is, and
    the view is the whole array when the instance holds no view of that name yet, and
    the view it holds otherwise.
  So an instance that holds no view of the name yet (as in the constructor) gets a
  proxied window if and only if the \<^verbatim>\<open>count\<close> is at least \<^verbatim>\<open>maxParticles\<close>.
\<close>

theorem view_classification:
  assumes names: "distinct (map fst (geometry_attributes e))"
    and entry: "(name, attr) \<in> set (geometry_attributes e)"
    and ordinary: "\<not> inherited_name name"
    and no_proto: "''__proto__'' \<notin> fst ` set (geometry_attributes e)"
    and numeric: "attributeIndices inst name \<noteq> Some Member"
  shows "(maxParticles e \<le> count attr \<longrightarrow>
           (let start = (case attributeIndices inst name of
                           Some (Index s) \<Rightarrow> s
                         | _ \<Rightarrow> max 0 (instanceCount e * itemSize attr));
                window = subarray (length (array attr)) start
                           (min (int (length (array attr))) (start + particleAmount inst * itemSize attr))
            in attributeIndices (calculateAttributeSubarrays e inst) name = Some (Index start) \<and>
               map_of (attributes (calculateAttributeSubarrays e inst)) name =
                 Some (ProxySubarray (fst window) (snd window)) \<and>
               fst window + snd window \<le> length (array attr))) \<and>
         (count attr < maxParticles e \<longrightarrow>
            attributeIndices (calculateAttributeSubarrays e inst) name = attributeIndices inst name \<and>
            map_of (attributes (calculateAttributeSubarrays e inst)) name =
              Some (case map_of (attributes inst) name of None \<Rightarrow> WholeArray | Some v \<Rightarrow> v)) \<and>
         (map_of (attributes inst) name = None \<longrightarrow>
            (\<exists>v. map_of (attributes (calculateAttributeSubarrays e inst)) name = Some v \<and>
                 (is_proxy v \<longleftrightarrow> maxParticles e \<le> count attr)))"
proof -
  let ?inst = "calculateAttributeSubarrays e inst"
  from fold_subarray_step_entry [OF names entry, of inst e]
  obtain inst0 where idx0: "attributeIndices inst0 name = attributeIndices inst name"
    and view0: "map_of (attributes inst0) name = map_of (attributes inst) name"
    and amount0: "particleAmount inst0 = particleAmount inst"
    and idx: "attributeIndices ?inst name = attributeIndices (subarray_step e (name, attr) inst0) name"
    and view: "map_of (attributes ?inst) name = map_of (attributes (subarray_step e (name, attr) inst0)) name"
    by (auto simp: calculateAttributeSubarrays_def)
  have window: "let start = (case attributeIndices inst name of
                           Some (Index s) \<Rightarrow> s
                         | _ \<Rightarrow> max 0 (instanceCount e * itemSize attr));
                window = subarray (length (array attr)) start
                           (min (int (length (array attr))) (start + particleAmount inst * itemSize attr))
            in attributeIndices ?inst name = Some (Index start) \<and>
               map_of (attributes ?inst) name = Some (ProxySubarray (fst window) (snd window)) \<and>
               fst window + snd window \<le> length (array attr)"
    if reaches: "maxParticles e \<le> count attr"
  proof (cases "attributeIndices inst name")
    case None
    with idx0 have "attributeIndices inst0 name = None" by simp
    from subarray_step_ordinary(1) [OF ordinary reaches this] idx view amount0 None show ?thesis
      by (simp add: Let_def subarray_within)
  next
    case (Some v)
    with numeric obtain s where s: "v = Index s" by (cases v) auto
    with Some idx0 have "attributeIndices inst0 name = Some (Index s)" by simp
    from subarray_step_ordinary(2) [OF ordinary reaches this] idx view amount0 Some s show ?thesis
      by (simp add: Let_def subarray_within)
  qed
  have whole: "attributeIndices ?inst name = attributeIndices inst name \<and>
      map_of (attributes ?inst) name =
        Some (case map_of (attributes inst) name of None \<Rightarrow> WholeArray | Some v \<Rightarrow> v)"
    if below: "count attr < maxParticles e"
    using subarray_step_ordinary(3) [OF ordinary below, where inst = inst0] idx view idx0 view0 by simp
  have iff: "\<exists>v. map_of (attributes ?inst) name = Some v \<and> (is_proxy v \<longleftrightarrow> maxParticles e \<le> count attr)"
    if blank: "map_of (attributes inst) name = None"
  proof (cases "maxParticles e \<le> count attr")
    case True
    from window [OF this] True show ?thesis
      by (auto simp: Let_def is_proxy_def)
  next
    case False
    then have "count attr < maxParticles e" by simp
    from whole [OF this] blank False show ?thesis
      by (simp add: is_proxy_def)
  qed
  from window whole iff show ?thesis
    by blast
qed

theorem view_classification_witness:
  "maxParticles tint_emitter \<le> count pos_attribute \<and>
   attributeIndices (calculateAttributeSubarrays tint_emitter (blank_instance 4)) ''pos'' = Some (Index 0) \<and>
   map_of (attributes (calculateAttributeSubarrays tint_emitter (blank_instance 4))) ''pos'' =
     Some (ProxySubarray 0 12) \<and>
   count tint_attribute < maxParticles tint_emitter \<and> isInstanced tint_attribute \<and>
   map_of (attributes (calculateAttributeSubarrays tint_emitter (blank_instance 4))) ''tint'' =
     Some WholeArray \<and>
   attributeIndices (calculateAttributeSubarrays tint_emitter (blank_instance 4)) ''tint'' = None \<and>
   map_of (attributes (calculateAttributeSubarrays raised_emitter (instances world_X ! 0))) ''pos'' =
     Some (ProxySubarray 0 12)"
proof -
  let ?blank = "blank_instance 4"
  let ?X = "instances world_X ! 0"
  let ?buf = "snd (hd (geometry_attributes raised_emitter))"
  have names: "distinct (map fst (geometry_attributes tint_emitter))" by code_simp
  have tint: "(''tint'', tint_attribute) \<in> set (geometry_attributes tint_emitter)"
    by (simp add: tint_emitter_def)
  have pos: "(''pos'', pos_attribute) \<in> set (geometry_attributes tint_emitter)"
    by (simp add: tint_emitter_def)
  have ordinary: "\<not> inherited_name ''pos''" "\<not> inherited_name ''tint''" by code_simp+
  have no_proto: "''__proto__'' \<notin> fst ` set (geometry_attributes tint_emitter)" by code_simp
  have blank: "attributeIndices ?blank name = None" "map_of (attributes ?blank) name = None"
      "particleAmount ?blank = 4" for name
    by (simp_all add: blank_instance_def)
  have below: "count tint_attribute < maxParticles tint_emitter" by code_simp
  have declared: "isInstanced tint_attribute" by code_simp
  have reaches: "maxParticles tint_emitter \<le> count pos_attribute" by code_simp
  have shape: "instanceCount tint_emitter = 0" "itemSize pos_attribute = 3"
      "length (array pos_attribute) = 30"
    by code_simp+
  have window: "subarray 30 0 12 = (0, 12)"
    by (simp add: subarray_def rel_index_def)
  from view_classification [OF names pos ordinary(1) no_proto, of ?blank] reaches
  have a: "attributeIndices (calculateAttributeSubarrays tint_emitter ?blank) ''pos'' = Some (Index 0) \<and>
      map_of (attributes (calculateAttributeSubarrays tint_emitter ?blank)) ''pos'' = Some (ProxySubarray 0 12)"
    by (simp add: blank shape window Let_def)
  from view_classification [OF names tint ordinary(2) no_proto, of ?blank] below
  have b: "map_of (attributes (calculateAttributeSubarrays tint_emitter ?blank)) ''tint'' = Some WholeArray \<and>
      attributeIndices (calculateAttributeSubarrays tint_emitter ?blank) ''tint'' = None"
    by (simp add: blank)
  have names': "distinct (map fst (geometry_attributes raised_emitter))" by code_simp
  have pos': "(''pos'', ?buf) \<in> set (geometry_attributes raised_emitter)" by code_simp
  have no_proto': "''__proto__'' \<notin> fst ` set (geometry_attributes raised_emitter)" by code_simp
  have numeric': "attributeIndices ?X ''pos'' \<noteq> Some Member" by code_simp
  have below': "count ?buf < maxParticles raised_emitter" by code_simp
  have held: "map_of (attributes ?X) ''pos'' = Some (ProxySubarray 0 12)" by code_simp
  from view_classification [OF names' pos' ordinary(1) no_proto' numeric'] below' held
  have c: "map_of (attributes (calculateAttributeSubarrays raised_emitter ?X)) ''pos'' =
      Some (ProxySubarray 0 12)"
    by simp
  from reaches a below declared b c show ?thesis by blast
qed

subsection \<open>Names that Object.prototype provides\<close>

text \<open>
  What the operations do with such names, on the scenes. An attribute named
  \<open>toString\<close> whose \<^verbatim>\<open>count\<close> is below \<^verbatim>\<open>maxParticles\<close> gets no view at all, since
  \<^verbatim>\<open>this.attributes[name]\<close> yields the inherited function. Removing the instance that
  recorded a function as the index of \<open>valueOf\<close> fills the whole buffer of \<open>valueOf\<close>
  with zeros. Filling a name that the geometry or the instance only inherits throws a
  \<^verbatim>\<open>TypeError\<close>, except where a loop over the \<^verbatim>\<open>length\<close> of the inherited function is
  not entered.
\<close>

lemma inherited_name_gets_no_whole_array:
  "count tint_attribute < maxParticles toString_emitter \<and>
   map_of (attributes (calculateAttributeSubarrays toString_emitter (blank_instance 4))) ''toString'' = None \<and>
   map_of (attributes (calculateAttributeSubarrays toString_emitter (blank_instance 4))) ''pos'' =
     Some (ProxySubarray 0 12)"
  by code_simp

lemma removal_with_inherited_index:
  "attributeIndices (instances world_valueOf ! 0) ''valueOf'' = Some Member \<and>
   has_returned (Some (instanceRemoved world_valueOf 0)) \<and>
   map (\<lambda>entry. (fst entry, needsUpdate (snd entry), set (array (snd entry))))
       (geometry_attributes (the_emitter (outcome_state (instanceRemoved world_valueOf 0)))) =
     [(''pos'', True, {0}), (''valueOf'', True, {0})]"
  by code_simp

lemma fill_of_inherited_name:
  "thrown_error (Emitter_fillAttribute fresh_emitter ''valueOf'' (Scalar 1)) = Some TypeError \<and>
   has_returned (Emitter_fillAttribute fresh_emitter ''color'' (Scalar 1)) \<and>
   thrown_error (EmitterInstance_fillAttribute world_X 0 ''valueOf'' (IScalar 1)) = Some TypeError \<and>
   has_returned (EmitterInstance_fillAttribute world_X 0 ''valueOf'' (IVector [1])) \<and>
   thrown_error (EmitterInstance_fillAttribute world_X 0 ''hasOwnProperty'' (IVector [1])) =
     Some TypeError \<and>
   has_returned (EmitterInstance_fillAttribute world_X 0 ''color'' (IScalar 1))"
  by code_simp

section \<open>Removing an instance that lies before another\<close>

text \<open>
  \<^verbatim>\<open>instanceRemoved\<close> changes the emitter only: the instance objects, with their
  recorded indices and views, are what they were (lemma \<open>instanceRemoved_instances\<close>).

  C1 on the scene of the specification. Before X is removed, Y has the recorded index
  12 and reads \<open>[2, 3, 4, 2, 3, 4, 2, 3, 4]\<close>. The removal returns and moves that data
  to the front of the buffer, but Y's recorded index is still 12 and its view is still
  the window of 9 numbers at offset 12, which now reads zeros.
\<close>

theorem survivor_offset_not_recomputed:
  "attributeIndices (instances world_XY ! 1) ''pos'' = Some (Index 12) \<and>
   instance_reads world_XY 1 ''pos'' = Some [2, 3, 4, 2, 3, 4, 2, 3, 4] \<and>
   has_returned (Some (instanceRemoved world_XY 0)) \<and>
   knownInstances (the_emitter (outcome_state (instanceRemoved world_XY 0))) = [1] \<and>
   map (array \<circ> snd) (geometry_attributes (the_emitter (outcome_state (instanceRemoved world_XY 0)))) =
     [[2, 3, 4, 2, 3, 4, 2, 3, 4, 0, 0, 0, 0, 0, 0, 0, 0, 0, 0, 0, 0, 0, 0, 0, 0, 0, 0, 0, 0, 0]] \<and>
   attributeIndices (instances (outcome_state (instanceRemoved world_XY 0)) ! 1) ''pos'' = Some (Index 12) \<and>
   map_of (attributes (instances (outcome_state (instanceRemoved world_XY 0)) ! 1)) ''pos'' =
     Some (ProxySubarray 12 9) \<and>
   instance_reads (outcome_state (instanceRemoved world_XY 0)) 1 ''pos'' =
     Some [0, 0, 0, 0, 0, 0, 0, 0, 0]"
  by code_simp

section \<open>Filling and the upload flag\<close>

text \<open>
  C4 on an attribute below \<^verbatim>\<open>maxParticles\<close>: the instance holds the whole array,
  without a proxy; \<^verbatim>\<open>fillAttribute\<close> with the number 7 returns and the buffer is
  \<open>[7, 7, 7]\<close>, but \<^verbatim>\<open>needsUpdate\<close> is still false.
\<close>

theorem shared_fill_leaves_needsUpdate:
  "map_of (attributes (instances world_tint ! 0)) ''tint'' = Some WholeArray \<and>
   has_returned (EmitterInstance_fillAttribute world_tint 0 ''tint'' (IScalar 7)) \<and>
   map_of (geometry_attributes (the_emitter
      (filled (EmitterInstance_fillAttribute world_tint 0 ''tint'' (IScalar 7)) world_tint))) ''tint'' =
     Some (tint_attribute\<lparr>array := [7, 7, 7], needsUpdate := False\<rparr>)"
  by code_simp

text \<open>
  The other paths do set the flag: \<^verbatim>\<open>Emitter.fillAttribute\<close> whenever it returns, and
  \<^verbatim>\<open>EmitterInstance.fillAttribute\<close> through a proxied view that is not empty. Through
  the whole array of an attribute below \<^verbatim>\<open>maxParticles\<close> it leaves the flag as it was.
\<close>

lemma Emitter_fillAttribute_marks:
  assumes "Emitter_fillAttribute e name val = Some (Returned e')"
    and "map_of (geometry_attributes e) name = Some attr"
  shows "\<exists>attr'. map_of (geometry_attributes e') name = Some attr' \<and> needsUpdate attr'"
  using assms
  by (auto simp: Emitter_fillAttribute_def get_property_def update_conv'
           split: option.splits outcome.splits)

lemma EmitterInstance_fillAttribute_proxy_marks:
  assumes "EmitterInstance_fillAttribute w i name val = Some (Returned w')"
    and "map_of (attributes (instances w ! i)) name = Some (ProxySubarray off n)"
    and "map_of (geometry_attributes (the_emitter w)) name = Some attr"
    and "0 < n"
  shows "\<exists>attr'. map_of (geometry_attributes (the_emitter w')) name = Some attr' \<and> needsUpdate attr'"
  using assms
  by (cases val)
     (auto simp: EmitterInstance_fillAttribute_def get_property_def store_view_def update_conv'
                 is_proxy_def looks_up_mutator_def view_length_def Let_def
           split: option.splits outcome.splits)

lemma EmitterInstance_fillAttribute_whole_array:
  assumes "EmitterInstance_fillAttribute w i name val = Some (Returned w')"
    and "map_of (attributes (instances w ! i)) name = Some WholeArray"
    and "map_of (geometry_attributes (the_emitter w)) name = Some attr"
  shows "\<exists>attr'. map_of (geometry_attributes (the_emitter w')) name = Some attr' \<and>
           needsUpdate attr' = needsUpdate attr"
  using assms
  by (auto simp: EmitterInstance_fillAttribute_def get_property_def store_view_def update_conv'
                 is_proxy_def Let_def
           split: option.splits outcome.splits)


section \<open>Filling with a vector\<close>

text \<open>
  C3, as stated, fails: filling X's view of 12 numbers with a vector of 5 throws the
  \<^verbatim>\<open>RangeError\<close> of \<^verbatim>\<open>set\<close> at the third tile, and so does filling the emitter's
  buffer of 30 numbers with a vector of 4.
\<close>

theorem vector_fill_throws:
  "has_thrown (EmitterInstance_fillAttribute world_X 0 ''pos'' (IVector [1, 1, 1, 1, 1])) \<and>
   has_thrown (Emitter_fillAttribute fresh_emitter ''pos'' (Vector [1, 2, 3, 4]))"
  by code_simp

lemma typed_set_fits:
  "i + length val \<le> length data \<Longrightarrow>
     typed_set data val (int i) = Inr (take i data @ val @ drop (i + length val) data)"
  by (simp add: typed_set_def)

lemma typed_set_overflows:
  "length data < i + length val \<Longrightarrow> typed_set data val (int i) = Inl RangeError"
  by (simp add: typed_set_def)

lemma tile_loop_from:
  assumes "val \<noteq> []" and "i \<le> length data"
  shows "tile_loop val data i =
    Some ((if (length data - i) mod length val = 0 then Returned else Threw RangeError)
      (take i data @ tiles ((length data - i) div length val) val @
       drop (i + (length data - i) div length val * length val) data))"
  using assms
proof (induction "length data - i" arbitrary: data i rule: less_induct)
  case less
  let ?k = "length val" and ?L = "length data"
  have k: "0 < ?k" using less.prems by simp
  show ?case
  proof (cases "i < ?L")
    case False
    with less.prems have "i = ?L" by simp
    then show ?thesis
      by (subst tile_loop.simps) (simp add: tiles_def)
  next
    case True
    show ?thesis
    proof (cases "i + ?k \<le> ?L")
      case False
      then have small: "?L - i < ?k" using k by arith
      then have "(?L - i) div ?k = 0" and "(?L - i) mod ?k \<noteq> 0"
        using True by simp_all
      moreover have "typed_set data val (int i) = Inl RangeError"
        using False by (simp add: typed_set_overflows)
      ultimately show ?thesis
        using True by (subst tile_loop.simps) (simp add: tiles_def)
    next
      case fits: True
      let ?data1 = "take i data @ val @ drop (i + ?k) data"
      let ?m = "(?L - (i + ?k)) div ?k"
      have len1: "length ?data1 = ?L" using fits by simp
      have step: "tile_loop val data i = tile_loop val ?data1 (i + ?k)"
        using True fits by (subst tile_loop.simps) (simp add: typed_set_fits)
      have "?L - (i + ?k) < ?L - i"
        using True k by arith
      then have "length ?data1 - (i + ?k) < ?L - i"
        using len1 by simp
      from less.hyps [OF this less.prems(1)] fits len1
      have ih: "tile_loop val ?data1 (i + ?k) =
        Some ((if (?L - (i + ?k)) mod ?k = 0 then Returned else Threw RangeError)
          (take (i + ?k) ?data1 @ tiles ?m val @ drop (i + ?k + ?m * ?k) ?data1))"
        by simp
      have split: "?L - i = (?L - (i + ?k)) + ?k" using fits by simp
      have md: "(?L - i) mod ?k = (?L - (i + ?k)) mod ?k"
        by (subst split) simp
      have dv: "(?L - i) div ?k = Suc ?m"
        using k by (subst split) simp
      have tk: "take (i + ?k) ?data1 = take i data @ val"
        using True by simp
      have dr: "drop (i + ?k + ?m * ?k) ?data1 = drop (i + ?k + ?m * ?k) data"
        using True by (simp add: add.commute add.left_commute)
      show ?thesis
        unfolding step ih md dv tk dr by (simp add: tiles_def add.assoc)
    qed
  qed
qed

lemma tile_loop_divides:
  assumes "val \<noteq> []" and "length val dvd length data"
  shows "tile_loop val data 0 = Some (Returned (tiles (length data div length val) val))"
  using tile_loop_from [OF assms(1), of 0 data] assms(2) by (simp add: mod_eq_0_iff_dvd)

lemma tile_loop_remainder:
  assumes "val \<noteq> []" and "\<not> length val dvd length data"
  shows "tile_loop val data 0 =
    Some (Threw RangeError (tiles (length data div length val) val @
       drop (length data div length val * length val) data))"
  using tile_loop_from [OF assms(1), of 0 data] assms(2) by (simp add: mod_eq_0_iff_dvd)


text \<open>
  Storing the contents of a view back changes nothing outside its window.
\<close>

lemma write_view_outside:
  assumes "view_offset v + view_length arr v \<le> length arr"
    and "length data = view_length arr v"
  shows "length (write_view arr v data) = length arr"
    and "take (view_offset v) (write_view arr v data) = take (view_offset v) arr"
    and "drop (view_offset v + view_length arr v) (write_view arr v data) =
           drop (view_offset v + view_length arr v) arr"
    and "read_view (write_view arr v data) v = data"
proof -
  show "length (write_view arr v data) = length arr"
    using assms by (simp add: write_view_def)
  show "take (view_offset v) (write_view arr v data) = take (view_offset v) arr"
    using assms by (simp add: write_view_def)
  show "drop (view_offset v + view_length arr v) (write_view arr v data) =
           drop (view_offset v + view_length arr v) arr"
    using assms by (simp add: write_view_def)
  have "view_length (write_view arr v data) v = view_length arr v"
    using assms by (cases v) (simp_all add: view_length_def write_view_def view_offset_def)
  then show "read_view (write_view arr v data) v = data"
    using assms by (simp add: read_view_def write_view_def)
qed

text \<open>
  C3, as amended: for a vector that is not empty, \<^verbatim>\<open>fillAttribute\<close> of both classes
  returns when the length of the vector divides the length \<open>L\<close> of the view (the whole
  buffer for the emitter), and the view then holds the vector \<open>L div k\<close> times; when it
  does not divide \<open>L\<close>, the call throws \<^verbatim>\<open>RangeError\<close> with the \<open>L div k\<close> complete
  tiles written and the rest of the view as it was. Nothing outside the view is written
  (lemma \<open>write_view_outside\<close>).
\<close>

theorem vector_fill_outcome:
  assumes "val \<noteq> []"
  shows "(map_of (geometry_attributes e) name = Some attr \<longrightarrow>
      Emitter_fillAttribute e name (Vector val) =
        (if length val dvd length (array attr)
         then Some (Returned (e\<lparr>geometry_attributes := AList.update name
                (attr\<lparr>array := tiles (length (array attr) div length val) val, needsUpdate := True\<rparr>)
                (geometry_attributes e)\<rparr>))
         else Some (Threw RangeError (e\<lparr>geometry_attributes := AList.update name
                (attr\<lparr>array := tiles (length (array attr) div length val) val @
                   drop (length (array attr) div length val * length val) (array attr)\<rparr>)
                (geometry_attributes e)\<rparr>)))) \<and>
    (map_of (attributes (instances w ! i)) name = Some v \<and>
     map_of (geometry_attributes (the_emitter w)) name = Some buf \<longrightarrow>
      EmitterInstance_fillAttribute w i name (IVector val) =
        (if length val dvd length (read_view (array buf) v)
         then Some (Returned (store_view w name buf v (IVector val)
                (tiles (length (read_view (array buf) v) div length val) val)))
         else Some (Threw RangeError (store_view w name buf v (IVector val)
                (tiles (length (read_view (array buf) v) div length val) val @
                 drop (length (read_view (array buf) v) div length val * length val)
                   (read_view (array buf) v))))))"
proof (intro conjI impI)
  assume "map_of (geometry_attributes e) name = Some attr"
  then show "Emitter_fillAttribute e name (Vector val) =
        (if length val dvd length (array attr)
         then Some (Returned (e\<lparr>geometry_attributes := AList.update name
                (attr\<lparr>array := tiles (length (array attr) div length val) val, needsUpdate := True\<rparr>)
                (geometry_attributes e)\<rparr>))
         else Some (Threw RangeError (e\<lparr>geometry_attributes := AList.update name
                (attr\<lparr>array := tiles (length (array attr) div length val) val @
                   drop (length (array attr) div length val * length val) (array attr)\<rparr>)
                (geometry_attributes e)\<rparr>)))"
    using assms
    by (simp add: Emitter_fillAttribute_def get_property_def fill_array_def
                  tile_loop_divides tile_loop_remainder)
next
  assume "map_of (attributes (instances w ! i)) name = Some v \<and>
     map_of (geometry_attributes (the_emitter w)) name = Some buf"
  then show "EmitterInstance_fillAttribute w i name (IVector val) =
        (if length val dvd length (read_view (array buf) v)
         then Some (Returned (store_view w name buf v (IVector val)
                (tiles (length (read_view (array buf) v) div length val) val)))
         else Some (Threw RangeError (store_view w name buf v (IVector val)
                (tiles (length (read_view (array buf) v) div length val) val @
                 drop (length (read_view (array buf) v) div length val * length val)
                   (read_view (array buf) v)))))"
    using assms
    by (simp add: EmitterInstance_fillAttribute_def get_property_def fill_view_def
                  tile_loop_divides tile_loop_remainder)
qed

theorem vector_fill_outcome_witness:
  "map_of (geometry_attributes fresh_emitter) ''pos'' = Some pos_attribute \<and>
   length [5, 6, 7 :: real] dvd length (array pos_attribute) \<and>
   has_returned (Emitter_fillAttribute fresh_emitter ''pos'' (Vector [5, 6, 7])) \<and>
   map_of (attributes (instances world_X ! 0)) ''pos'' = Some (ProxySubarray 0 12) \<and>
   has_returned (EmitterInstance_fillAttribute world_X 0 ''pos'' (IVector [5, 6, 7])) \<and>
   has_thrown (EmitterInstance_fillAttribute world_X 0 ''pos'' (IVector [5, 6, 7, 8, 9]))"
proof -
  let ?buf = "snd (hd (geometry_attributes (the_emitter world_X)))"
  have three: "[5, 6, 7 :: real] \<noteq> []" and five: "[5, 6, 7, 8, 9 :: real] \<noteq> []"
    by simp_all
  have attr: "map_of (geometry_attributes fresh_emitter) ''pos'' = Some pos_attribute"
    by (simp add: fresh_emitter_def)
  have view: "map_of (attributes (instances world_X ! 0)) ''pos'' = Some (ProxySubarray 0 12)"
    by code_simp
  have buf: "map_of (geometry_attributes (the_emitter world_X)) ''pos'' = Some ?buf"
    by code_simp
  have d1: "length [5, 6, 7 :: real] dvd length (array pos_attribute)"
    by code_simp
  have d2: "length [5, 6, 7 :: real] dvd length (read_view (array ?buf) (ProxySubarray 0 12))"
    by code_simp
  have d3: "\<not> length [5, 6, 7, 8, 9 :: real] dvd length (read_view (array ?buf) (ProxySubarray 0 12))"
    by code_simp
  note whole = vector_fill_outcome [OF three, THEN conjunct1, THEN mp, OF attr]
  note tiled = vector_fill_outcome [OF three, THEN conjunct2, THEN mp, OF conjI [OF view buf]]
  note cut = vector_fill_outcome [OF five, THEN conjunct2, THEN mp, OF conjI [OF view buf]]
  have a: "has_returned (Emitter_fillAttribute fresh_emitter ''pos'' (Vector [5, 6, 7]))"
    unfolding whole using d1 by (simp only: if_True has_returned.simps)
  have b: "has_returned (EmitterInstance_fillAttribute world_X 0 ''pos'' (IVector [5, 6, 7]))"
    unfolding tiled using d2 by (simp only: if_True has_returned.simps)
  have c: "has_thrown (EmitterInstance_fillAttribute world_X 0 ''pos'' (IVector [5, 6, 7, 8, 9]))"
    unfolding cut using d3 by (simp only: if_False has_thrown.simps)
  from attr d1 a view b c show ?thesis by blast
qed

text \<open>With an empty vector and a view that is not empty the loop does not return.\<close>

lemma tile_loop_empty_diverges:
  assumes "i < length data"
  shows "tile_loop [] data i = None"
proof -
  have stuck: "\<not> (val = [] \<and> i < length data)" if "tile_loop val data i = Some r" for val data i r
  proof (rule tile_loop.raw_induct [where P = "\<lambda>v d j r. \<not> (v = [] \<and> j < length d)", OF _ that])
    fix loop :: "real list \<Rightarrow> real list \<Rightarrow> nat \<Rightarrow> real list outcome option"
    fix v d :: "real list" and j :: nat and r :: "real list outcome"
    assume ih: "\<And>v d j r. loop v d j = Some r \<Longrightarrow> \<not> (v = [] \<and> j < length d)"
    assume body: "(if j < length d
         then case typed_set d v (int j) of
                Inl err \<Rightarrow> Some (Threw err d)
              | Inr d' \<Rightarrow> loop v d' (j + length v)
         else Some (Returned d)) = Some r"
    show "\<not> (v = [] \<and> j < length d)"
    proof
      assume stuck: "v = [] \<and> j < length d"
      then have "typed_set d v (int j) = Inr d"
        by (simp add: typed_set_def)
      with stuck body have "loop v d j = Some r"
        by simp
      from ih [OF this] stuck show False by simp
    qed
  qed
  show ?thesis
  proof (cases "tile_loop [] data i")
    case None
    then show ?thesis .
  next
    case (Some r)
    from stuck [OF this] assms show ?thesis by simp
  qed
qed

end
